theory Spec2Isabelle
  imports Main "HOL-Library.Sublist"
begin

section \<open>JavaScript values used by the middleware\<close>

text \<open>
  The middleware reads two cookies with \<^verbatim>\<open>request.cookies.get(name)?.value\<close>; each is
  either \<^verbatim>\<open>undefined\<close> (\<open>None\<close>) or a string (\<open>Some s\<close>). In a condition
  (\<^verbatim>\<open>if (role)\<close>, \<^verbatim>\<open>!token\<close>, \<^verbatim>\<open>token && role\<close>) a cookie value counts as true
  exactly when it is a non-empty string.
\<close>

fun truthy :: "string option \<Rightarrow> bool" where
  "truthy None = False"
| "truthy (Some s) = (s \<noteq> [])"

text \<open>\<^verbatim>\<open>s.startsWith(p)\<close>: \<open>p\<close> is a prefix of \<open>s\<close>, both read as lists of
  code units.\<close>

definition startsWith :: "string \<Rightarrow> string \<Rightarrow> bool" where
  "startsWith s p = prefix p s"

text \<open>
  The role tables are object literals and are read with \<^verbatim>\<open>TABLE[role]\<close>. Such a read
  first converts the key to a string (\<^verbatim>\<open>undefined\<close> becomes the key \<^verbatim>\<open>"undefined"\<close>),
  then looks for an own property and, when there is none, follows the prototype chain
  to \<^verbatim>\<open>Object.prototype\<close>. The members of \<^verbatim>\<open>Object.prototype\<close> are functions (and,
  for \<^verbatim>\<open>__proto__\<close>, the prototype object itself): none of them is a string or an array
  and all of them count as true in a condition.
\<close>

definition OBJECT_PROTOTYPE_KEYS :: "string list" where
  "OBJECT_PROTOTYPE_KEYS =
    [''constructor'', ''__defineGetter__'', ''__defineSetter__'', ''hasOwnProperty'',
     ''__lookupGetter__'', ''__lookupSetter__'', ''isPrototypeOf'', ''propertyIsEnumerable'',
     ''toString'', ''valueOf'', ''__proto__'', ''toLocaleString'']"

datatype 'a property = Own 'a | Inherited string | Undefined

fun toPropertyKey :: "string option \<Rightarrow> string" where
  "toPropertyKey None = ''undefined''"
| "toPropertyKey (Some s) = s"

definition getProperty :: "(string \<times> 'a) list \<Rightarrow> string option \<Rightarrow> 'a property" where
  "getProperty obj key =
    (case map_of obj (toPropertyKey key) of
       Some v \<Rightarrow> Own v
     | None \<Rightarrow>
        if toPropertyKey key \<in> set OBJECT_PROTOTYPE_KEYS then Inherited (toPropertyKey key)
        else Undefined)"

text \<open>
  What a redirect points to: the value assigned to \<^verbatim>\<open>url.pathname\<close>. It is a path
  written in the source, or (\<open>Member k\<close>) the text that the assignment makes of the
  member \<open>k\<close> of \<^verbatim>\<open>Object.prototype\<close>, which is none of the paths of the source.
\<close>

datatype target = Path string | Member string

text \<open>\<^verbatim>\<open>TABLE[role] || d\<close> for a table of strings, as assigned to \<^verbatim>\<open>url.pathname\<close>.\<close>

fun orPath :: "string property \<Rightarrow> string \<Rightarrow> target" where
  "orPath (Own p) d = (if p = [] then Path d else Path p)"
| "orPath (Inherited k) d = Member k"
| "orPath Undefined d = Path d"

text \<open>
  \<^verbatim>\<open>(TABLE[role] || []).some(f)\<close> for a table of arrays. An array is never replaced by
  the default (also the empty array counts as true); an inherited member has no
  \<^verbatim>\<open>some\<close> method, so the call throws a \<^verbatim>\<open>TypeError\<close>.
\<close>

datatype error = TypeError

fun orEmptySome :: "string list property \<Rightarrow> (string \<Rightarrow> bool) \<Rightarrow> error + bool" where
  "orEmptySome (Own routes) f = Inr (list_ex f routes)"
| "orEmptySome (Inherited k) f = Inl TypeError"
| "orEmptySome Undefined f = Inr (list_ex f [])"

section \<open>The decision\<close>

text \<open>
  \<open>Allow\<close> is \<^verbatim>\<open>NextResponse.next()\<close>, \<open>Redirect\<close> is \<^verbatim>\<open>NextResponse.redirect\<close>, and
  \<open>RedirectAndClearCredentials\<close> is the redirect whose response also deletes the
  cookies \<^verbatim>\<open>access_token\<close> and \<^verbatim>\<open>user_role\<close> (\<^verbatim>\<open>clearAuthCookies\<close>).
\<close>

datatype Decision = Allow | Redirect target | RedirectAndClearCredentials target

section \<open>middleware.ts\<close>

definition PUBLIC_ROUTES :: "string list" where
  "PUBLIC_ROUTES =
    [''/'', ''/public'', ''/login'', ''/register'', ''/admin/login'', ''/supplier/login'',
     ''/courier/login'', ''/reset-password'', ''/forgot-password'', ''/verify-signup'',
     ''/callback'']"

definition EXCLUDED_PATHS :: "string list" where
  "EXCLUDED_PATHS = [''/_next'', ''/api'', ''/public'', ''/favicon.ico'']"

definition ROLE_ACCESS_MAP :: "(string \<times> string list) list" where
  "ROLE_ACCESS_MAP =
    [(''ADMIN'', [''/admin'', ''/dashboard'']),
     (''VENDOR'', [''/supplier'']),
     (''DELIVERY'', [''/courier'']),
     (''CLIENT'', [''/account'', ''/orders'', ''/cart'', ''/notifications''])]"

definition ROLE_DASHBOARD_MAP :: "(string \<times> string) list" where
  "ROLE_DASHBOARD_MAP =
    [(''ADMIN'', ''/admin/dashboard''),
     (''VENDOR'', ''/supplier/dashboard''),
     (''DELIVERY'', ''/courier/dashboard''),
     (''CLIENT'', ''/account'')]"

definition isExcludedPath :: "string \<Rightarrow> bool" where
  "isExcludedPath path = list_ex (\<lambda>excludedPath. startsWith path excludedPath) EXCLUDED_PATHS"

definition isPublicRoute :: "string \<Rightarrow> bool" where
  "isPublicRoute path =
    list_ex (\<lambda>publicRoute.
      if publicRoute = ''/'' \<and> path = ''/'' then True
      else startsWith path publicRoute) PUBLIC_ROUTES"

definition isLoginRoute :: "string \<Rightarrow> bool" where
  "isLoginRoute path =
    (let loginRoutes = [''/login'', ''/admin/login'', ''/supplier/login'', ''/courier/login'']
     in list_ex (\<lambda>loginRoute. startsWith path loginRoute) loginRoutes)"

definition determineLoginPath :: "string \<Rightarrow> string" where
  "determineLoginPath path =
    (if startsWith path ''/admin'' then ''/admin/login''
     else if startsWith path ''/supplier'' then ''/supplier/login''
     else if startsWith path ''/courier'' then ''/courier/login''
     else ''/login'')"

definition hasRoleAccess :: "string option \<Rightarrow> string \<Rightarrow> error + bool" where
  "hasRoleAccess userRole currentPath =
    orEmptySome (getProperty ROLE_ACCESS_MAP userRole)
      (\<lambda>allowedRoute. startsWith currentPath allowedRoute)"

definition isProtectedRoute :: "string \<Rightarrow> bool" where
  "isProtectedRoute path =
    (let allProtectedRoutes = concat (map snd ROLE_ACCESS_MAP)
     in list_ex (\<lambda>protectedRoute. startsWith path protectedRoute) allProtectedRoutes)"

text \<open>
  The function \<^verbatim>\<open>middleware\<close> of middleware.ts, on the request's pathname and its two
  cookie values. Steps 1 to 5 are the source's; in step 4 the call of
  \<^verbatim>\<open>hasRoleAccess\<close> happens only when \<^verbatim>\<open>isProtectedRoute\<close> holds (\<^verbatim>\<open>&&\<close>).
\<close>

definition middleware :: "string \<Rightarrow> string option \<Rightarrow> string option \<Rightarrow> error + Decision" where
  "middleware pathname token role =
    (if isExcludedPath pathname then Inr Allow
     else if isPublicRoute pathname then
       (if truthy token \<and> truthy role \<and> isLoginRoute pathname
        then Inr (Redirect (orPath (getProperty ROLE_DASHBOARD_MAP role) ''/''))
        else Inr Allow)
     else if \<not> truthy token then Inr (Redirect (Path (determineLoginPath pathname)))
     else if truthy role then
       (if isProtectedRoute pathname then
          (case hasRoleAccess role pathname of
             Inl e \<Rightarrow> Inl e
           | Inr access \<Rightarrow>
               if \<not> access
               then Inr (Redirect (orPath (getProperty ROLE_DASHBOARD_MAP role) ''/''))
               else Inr Allow)
        else Inr Allow)
     else Inr (RedirectAndClearCredentials (Path ''/login'')))"

section \<open>middleware.js\<close>

text \<open>
  The JavaScript file declares its own four tables and has no helper functions: each
  test is computed where it is used.
\<close>

definition PUBLIC_ROUTES_js :: "string list" where
  "PUBLIC_ROUTES_js =
    [''/'', ''/public'', ''/login'', ''/register'', ''/admin/login'', ''/supplier/login'',
     ''/courier/login'', ''/reset-password'', ''/forgot-password'', ''/verify-signup'',
     ''/callback'']"

definition EXCLUDED_PATHS_js :: "string list" where
  "EXCLUDED_PATHS_js = [''/_next'', ''/api'', ''/public'', ''/favicon.ico'']"

definition ROLE_ACCESS_MAP_js :: "(string \<times> string list) list" where
  "ROLE_ACCESS_MAP_js =
    [(''ADMIN'', [''/admin'', ''/dashboard'']),
     (''VENDOR'', [''/supplier'']),
     (''DELIVERY'', [''/courier'']),
     (''CLIENT'', [''/account'', ''/orders'', ''/cart'', ''/notifications''])]"

definition ROLE_DASHBOARD_MAP_js :: "(string \<times> string) list" where
  "ROLE_DASHBOARD_MAP_js =
    [(''ADMIN'', ''/admin/dashboard''),
     (''VENDOR'', ''/supplier/dashboard''),
     (''DELIVERY'', ''/courier/dashboard''),
     (''CLIENT'', ''/account'')]"

definition middleware_js :: "string \<Rightarrow> string option \<Rightarrow> string option \<Rightarrow> error + Decision" where
  "middleware_js pathname token role =
    (let isExcludedPath' = list_ex (\<lambda>path. startsWith pathname path) EXCLUDED_PATHS_js in
     if isExcludedPath' then Inr Allow
     else
       let isPublicRoute' =
             list_ex (\<lambda>route.
               if route = ''/'' \<and> pathname = ''/'' then True
               else startsWith pathname route) PUBLIC_ROUTES_js in
       if isPublicRoute' then
         (if truthy token \<and> truthy role then
            (let isLoginRoute' =
                   list_ex (\<lambda>route. startsWith pathname route)
                     [''/login'', ''/admin/login'', ''/supplier/login'', ''/courier/login''] in
             if isLoginRoute'
             then Inr (Redirect (orPath (getProperty ROLE_DASHBOARD_MAP_js role) ''/''))
             else Inr Allow)
          else Inr Allow)
       else if \<not> truthy token then
         (let loginPath =
                (if startsWith pathname ''/admin'' then ''/admin/login''
                 else if startsWith pathname ''/supplier'' then ''/supplier/login''
                 else if startsWith pathname ''/courier'' then ''/courier/login''
                 else ''/login'') in
          Inr (Redirect (Path loginPath)))
       else if truthy role then
         (let currentProtectedRoutes = concat (map snd ROLE_ACCESS_MAP_js);
              isProtectedRoute' =
                list_ex (\<lambda>route. startsWith pathname route) currentProtectedRoutes in
          if isProtectedRoute' then
            (case orEmptySome (getProperty ROLE_ACCESS_MAP_js role)
                    (\<lambda>allowedRoute. startsWith pathname allowedRoute) of
               Inl e \<Rightarrow> Inl e
             | Inr hasAccess \<Rightarrow>
                 if \<not> hasAccess
                 then Inr (Redirect (orPath (getProperty ROLE_DASHBOARD_MAP_js role) ''/''))
                 else Inr Allow)
          else Inr Allow)
       else Inr (RedirectAndClearCredentials (Path ''/login'')))"

section \<open>The role type\<close>

text \<open>
  The four values of the type \<^verbatim>\<open>UserRole\<close> of middleware.ts. The type is only asserted
  of the cookie's value (\<^verbatim>\<open>as UserRole | undefined\<close>); nothing checks it when the
  middleware runs.
\<close>

definition UserRole :: "string list" where
  "UserRole = [''ADMIN'', ''VENDOR'', ''DELIVERY'', ''CLIENT'']"

section \<open>Route classification\<close>

lemma tables_js:
  "PUBLIC_ROUTES_js = PUBLIC_ROUTES" "EXCLUDED_PATHS_js = EXCLUDED_PATHS"
  "ROLE_ACCESS_MAP_js = ROLE_ACCESS_MAP" "ROLE_DASHBOARD_MAP_js = ROLE_DASHBOARD_MAP"
  by (simp_all add: PUBLIC_ROUTES_js_def EXCLUDED_PATHS_js_def ROLE_ACCESS_MAP_js_def
      ROLE_DASHBOARD_MAP_js_def PUBLIC_ROUTES_def EXCLUDED_PATHS_def ROLE_ACCESS_MAP_def
      ROLE_DASHBOARD_MAP_def)

lemma startsWith_slash:
  "startsWith path (CHR ''/'' # rest) \<Longrightarrow> startsWith path ''/''"
  by (cases path) (simp_all add: startsWith_def)

lemma startsWith_refl: "startsWith s s"
  by (simp add: startsWith_def)

text \<open>Every entry of every table starts with \<open>/\<close>, and \<open>/\<close> itself is a public route
  that is tested by prefix: the public routes are the paths that start with \<open>/\<close>.\<close>

lemma isPublicRoute_iff: "isPublicRoute path \<longleftrightarrow> startsWith path ''/''"
proof
  assume "isPublicRoute path"
  then show "startsWith path ''/''"
    by (auto simp: isPublicRoute_def PUBLIC_ROUTES_def startsWith_refl split: if_splits
        intro: startsWith_slash)
next
  assume "startsWith path ''/''"
  then show "isPublicRoute path"
    by (simp add: isPublicRoute_def PUBLIC_ROUTES_def)
qed

lemma isExcludedPath_iff:
  "isExcludedPath path \<longleftrightarrow>
     startsWith path ''/_next'' \<or> startsWith path ''/api'' \<or> startsWith path ''/public''
     \<or> startsWith path ''/favicon.ico''"
  by (simp add: isExcludedPath_def EXCLUDED_PATHS_def)

lemma isLoginRoute_iff:
  "isLoginRoute path \<longleftrightarrow>
     startsWith path ''/login'' \<or> startsWith path ''/admin/login''
     \<or> startsWith path ''/supplier/login'' \<or> startsWith path ''/courier/login''"
  by (simp add: isLoginRoute_def)

lemma isLoginRoute_not_excluded: "isLoginRoute path \<Longrightarrow> \<not> isExcludedPath path"
  by (auto simp: isLoginRoute_iff isExcludedPath_iff startsWith_def dest: prefix_same_cases)

lemma isLoginRoute_public: "isLoginRoute path \<Longrightarrow> isPublicRoute path"
  by (auto simp: isPublicRoute_iff isLoginRoute_iff intro: startsWith_slash)

lemma isProtectedRoute_public: "isProtectedRoute path \<Longrightarrow> isPublicRoute path"
  by (auto simp: isPublicRoute_iff isProtectedRoute_def ROLE_ACCESS_MAP_def
      intro: startsWith_slash)

lemma isExcludedPath_public: "isExcludedPath path \<Longrightarrow> isPublicRoute path"
  by (auto simp: isPublicRoute_iff isExcludedPath_iff intro: startsWith_slash)

section \<open>The decision, branch by branch\<close>

lemma middleware_excluded:
  "isExcludedPath pathname \<Longrightarrow> middleware pathname token role = Inr Allow"
  by (simp add: middleware_def)

lemma middleware_public:
  "\<not> isExcludedPath pathname \<Longrightarrow> isPublicRoute pathname \<Longrightarrow>
   middleware pathname token role =
     (if truthy token \<and> truthy role \<and> isLoginRoute pathname
      then Inr (Redirect (orPath (getProperty ROLE_DASHBOARD_MAP role) ''/''))
      else Inr Allow)"
  by (simp add: middleware_def)

text \<open>A path that is not public starts with no entry of any table, so steps 3 and 4
  have one login page and no role-gated area left.\<close>

lemma middleware_private:
  "\<not> isPublicRoute pathname \<Longrightarrow>
   middleware pathname token role =
     (if \<not> truthy token then Inr (Redirect (Path ''/login''))
      else if truthy role then Inr Allow
      else Inr (RedirectAndClearCredentials (Path ''/login'')))"
proof -
  assume np: "\<not> isPublicRoute pathname"
  then have "\<not> isExcludedPath pathname" "\<not> isProtectedRoute pathname"
    using isExcludedPath_public isProtectedRoute_public by blast+
  moreover have "determineLoginPath pathname = ''/login''"
    using np by (auto simp: determineLoginPath_def isPublicRoute_iff dest: startsWith_slash)
  ultimately show ?thesis using np by (simp add: middleware_def)
qed

text \<open>The \<^verbatim>\<open>TypeError\<close> of \<open>hasRoleAccess\<close> is never reached: the middleware returns a
  decision on every input.\<close>

lemma middleware_total: "\<exists>d. middleware pathname token role = Inr d"
  by (cases "isExcludedPath pathname"; cases "isPublicRoute pathname")
     (simp_all add: middleware_excluded middleware_public middleware_private)

lemma dashboard_targets:
  "toPropertyKey role \<notin> set OBJECT_PROTOTYPE_KEYS \<Longrightarrow>
   orPath (getProperty ROLE_DASHBOARD_MAP role) ''/''
     \<in> Path ` {''/admin/dashboard'', ''/supplier/dashboard'', ''/courier/dashboard'',
               ''/account'', ''/''}"
  by (simp add: getProperty_def ROLE_DASHBOARD_MAP_def)

text \<open>When the role cookie does not name a member of \<^verbatim>\<open>Object.prototype\<close>, every
  redirect goes to one of the nine paths written in the source.\<close>

lemma redirect_targets:
  assumes "toPropertyKey role \<notin> set OBJECT_PROTOTYPE_KEYS"
    and "middleware path token role = Inr (Redirect tg)
         \<or> middleware path token role = Inr (RedirectAndClearCredentials tg)"
  shows "tg \<in> Path ` {''/admin/dashboard'', ''/supplier/dashboard'', ''/courier/dashboard'',
               ''/account'', ''/'', ''/admin/login'', ''/supplier/login'', ''/courier/login'',
               ''/login''}"
proof (cases "isExcludedPath path")
  case True
  with assms(2) show ?thesis by (simp add: middleware_excluded)
next
  case ne: False
  show ?thesis
  proof (cases "isPublicRoute path")
    case True
    with ne assms(2) dashboard_targets [OF assms(1)] show ?thesis
      by (auto simp: middleware_public split: if_splits)
  next
    case False
    with assms(2) show ?thesis
      by (auto simp: middleware_private split: if_splits)
  qed
qed

text \<open>A pathname that starts with \<open>/\<close> and with no excluded prefix is public, so steps 3
  and 4 are not reached: the decision is \<open>Allow\<close> or, with a token and a role, the
  redirect to \<^verbatim>\<open>ROLE_DASHBOARD_MAP[role] || "/"\<close>, which is a dashboard or \<open>/\<close> when
  the role names no member of \<^verbatim>\<open>Object.prototype\<close>.\<close>

lemma public_pathname_decision:
  assumes "startsWith pathname ''/''" and "\<not> isExcludedPath pathname"
  shows "isPublicRoute pathname
    \<and> (middleware pathname token role = Inr Allow
       \<or> (truthy token \<and> truthy role
          \<and> middleware pathname token role =
              Inr (Redirect (orPath (getProperty ROLE_DASHBOARD_MAP role) ''/''))))
    \<and> (\<forall>target. middleware pathname token role \<noteq> Inr (RedirectAndClearCredentials target))
    \<and> (toPropertyKey role \<notin> set OBJECT_PROTOTYPE_KEYS \<longrightarrow>
          orPath (getProperty ROLE_DASHBOARD_MAP role) ''/''
            \<in> Path ` {''/admin/dashboard'', ''/supplier/dashboard'', ''/courier/dashboard'',
                      ''/account'', ''/''})"
proof -
  have "isPublicRoute pathname
    \<and> (middleware pathname token role = Inr Allow
       \<or> (truthy token \<and> truthy role
          \<and> middleware pathname token role =
              Inr (Redirect (orPath (getProperty ROLE_DASHBOARD_MAP role) ''/''))))
    \<and> (\<forall>target. middleware pathname token role \<noteq> Inr (RedirectAndClearCredentials target))"
    using assms by (simp add: isPublicRoute_iff middleware_public)
  with dashboard_targets [of role] show ?thesis
    by blast
qed

section \<open>The claims\<close>

text \<open>
  C1. The claim: the public-route classification holds exactly when the path is \<open>/\<close> or
  starts with a non-root entry of \<open>PUBLIC_ROUTES\<close>; the entry \<open>/\<close> matches by equality
  only. The code at the path \<open>/account\<close>: the path is not \<open>/\<close> and starts with no
  non-root entry, and yet \<open>isPublicRoute\<close> holds, because for the entry \<open>/\<close> the test
  falls through to the prefix test whenever the path is not \<open>/\<close>.
\<close>

theorem isPublicRoute_account:
  "isPublicRoute ''/account''
   \<and> ''/account'' \<noteq> ''/''
   \<and> \<not> list_ex (\<lambda>publicRoute. startsWith ''/account'' publicRoute)
         (filter (\<lambda>publicRoute. publicRoute \<noteq> ''/'') PUBLIC_ROUTES)"
  by (simp add: isPublicRoute_def PUBLIC_ROUTES_def startsWith_def)

text \<open>
  C2. The claim: for every pathname that starts with \<open>/\<close> and with no excluded prefix,
  the public-route check succeeds and, for every token and role, the decision is
  \<open>Allow\<close> or a redirect to the role's dashboard or to \<open>/\<close>. The code at the path
  \<open>/login\<close>, with the token \<open>t\<close> and the role cookie \<open>constructor\<close>: the path starts
  with \<open>/\<close>, is not excluded and is public, but the decision is the redirect to the
  text of the inherited member \<^verbatim>\<open>Object.prototype.constructor\<close>, which is neither
  \<open>Allow\<close> nor a redirect to one of the four dashboards or to \<open>/\<close>.
\<close>

theorem public_pathname_inherited_role:
  "startsWith ''/login'' ''/'' \<and> \<not> isExcludedPath ''/login'' \<and> isPublicRoute ''/login''
   \<and> middleware ''/login'' (Some ''t'') (Some ''constructor'')
       = Inr (Redirect (Member ''constructor''))
   \<and> middleware ''/login'' (Some ''t'') (Some ''constructor'') \<noteq> Inr Allow
   \<and> middleware ''/login'' (Some ''t'') (Some ''constructor'')
       \<notin> (\<lambda>p. Inr (Redirect (Path p))) `
           {''/admin/dashboard'', ''/supplier/dashboard'', ''/courier/dashboard'',
            ''/account'', ''/''}"
  by (simp add: middleware_def isExcludedPath_iff isPublicRoute_iff isLoginRoute_iff
      getProperty_def ROLE_DASHBOARD_MAP_def OBJECT_PROTOTYPE_KEYS_def startsWith_def)

text \<open>
  C3. The claim: with no token, the path \<open>/courier/orders\<close> is redirected to
  \<open>/courier/login\<close>. The code: \<open>determineLoginPath\<close> does choose \<open>/courier/login\<close> for
  this path, but the middleware never asks it, since the path is public (it starts with
  \<open>/\<close>); the decision is \<open>Allow\<close>, whatever the role.
\<close>

theorem no_token_courier_orders:
  "middleware ''/courier/orders'' None role = Inr Allow
   \<and> determineLoginPath ''/courier/orders'' = ''/courier/login''"
  by (simp add: middleware_def isExcludedPath_iff isPublicRoute_iff determineLoginPath_def
      startsWith_def)

text \<open>
  C4. The claim: with a token and the role \<open>VENDOR\<close>, the path \<open>/courier/orders\<close> is
  redirected to \<open>/supplier/dashboard\<close>. The code: the path is role-gated and \<open>VENDOR\<close>
  has no access to it, but step 2 has already returned \<open>Allow\<close>, since the path is
  public (it starts with \<open>/\<close>) and is not a login page.
\<close>

theorem vendor_courier_orders:
  "middleware ''/courier/orders'' (Some ''t'') (Some ''VENDOR'') = Inr Allow
   \<and> isProtectedRoute ''/courier/orders''
   \<and> hasRoleAccess (Some ''VENDOR'') ''/courier/orders'' = Inr False"
  by (simp add: middleware_def isExcludedPath_iff isPublicRoute_iff isLoginRoute_iff
      isProtectedRoute_def hasRoleAccess_def getProperty_def ROLE_ACCESS_MAP_def startsWith_def)

text \<open>
  C5. The claim: with a token and no role, the path \<open>/account\<close> is redirected to
  \<open>/login\<close> with the credentials cleared, and the next request, without credentials, is
  redirected to \<open>/login\<close>. The code: both requests are allowed, since \<open>/account\<close> is
  public (it starts with \<open>/\<close>).
\<close>

theorem token_without_role_account:
  "middleware ''/account'' (Some ''t'') None = Inr Allow
   \<and> middleware ''/account'' None None = Inr Allow"
  by (simp add: middleware_def isExcludedPath_iff isPublicRoute_iff startsWith_def)

text \<open>
  C6. The claim: with a token, a role string that is none of the four roles gives the
  decision that an absent role gives. It fails at the path \<open>/login\<close> and the role
  \<open>GUEST\<close>: the role counts as present, so the login page redirects to the fallback
  dashboard \<open>/\<close>, while an absent role is allowed.
\<close>

theorem unknown_role_login_counterexample:
  "''GUEST'' \<notin> set UserRole
   \<and> middleware ''/login'' (Some ''t'') (Some ''GUEST'') = Inr (Redirect (Path ''/''))
   \<and> middleware ''/login'' (Some ''t'') None = Inr Allow"
  by (simp add: UserRole_def middleware_def isExcludedPath_iff isPublicRoute_iff isLoginRoute_iff
      getProperty_def ROLE_DASHBOARD_MAP_def OBJECT_PROTOTYPE_KEYS_def startsWith_def)

text \<open>
  C6, as amended. For every path, every non-empty token and every role string that is
  none of the four roles: the decision equals the one of an absent role exactly when the
  role string is empty, or the path is excluded, or the path is public and not a login
  page; and a non-empty role string never gives the redirect that clears the
  credentials (it is handled as a role that is present).
\<close>

theorem unknown_role_vs_absent_role:
  assumes "r \<notin> set UserRole" and "t \<noteq> []"
  shows "(middleware path (Some t) (Some r) = middleware path (Some t) None
            \<longleftrightarrow> r = [] \<or> isExcludedPath path \<or> (isPublicRoute path \<and> \<not> isLoginRoute path))
     \<and> (r \<noteq> [] \<longrightarrow>
          (\<forall>target. middleware path (Some t) (Some r)
             \<noteq> Inr (RedirectAndClearCredentials target)))"
proof (cases "isExcludedPath path")
  case True
  then show ?thesis by (simp add: middleware_excluded)
next
  case ne: False
  show ?thesis
  proof (cases "isPublicRoute path")
    case True
    with ne assms(2) show ?thesis by (simp add: middleware_public)
  next
    case False
    with ne assms(2) show ?thesis by (simp add: middleware_private)
  qed
qed

theorem unknown_role_vs_absent_role_witness:
  "''GUEST'' \<notin> set UserRole \<and> ''t'' \<noteq> [] \<and> ''GUEST'' \<noteq> []
   \<and> middleware ''/register'' (Some ''t'') (Some ''GUEST'')
       = middleware ''/register'' (Some ''t'') None
   \<and> middleware ''/login'' (Some ''t'') (Some ''GUEST'')
       \<noteq> middleware ''/login'' (Some ''t'') None
   \<and> (\<forall>target. middleware ''/login'' (Some ''t'') (Some ''GUEST'')
         \<noteq> Inr (RedirectAndClearCredentials target))"
proof -
  have a: "''GUEST'' \<notin> set UserRole" and b: "''t'' \<noteq> []"
    by (simp_all add: UserRole_def)
  show ?thesis
    using a b unknown_role_vs_absent_role [OF a b, of "''/register''"]
      unknown_role_vs_absent_role [OF a b, of "''/login''"]
    by (simp add: isExcludedPath_iff isPublicRoute_iff isLoginRoute_iff startsWith_def)
qed

text \<open>
  C7. For every path that starts with one of the excluded prefixes \<open>/_next\<close>, \<open>/api\<close>,
  \<open>/public\<close>, \<open>/favicon.ico\<close>, the decision is \<open>Allow\<close>, whatever the token and the
  role: the exclusion check comes first.
\<close>

theorem excluded_prefix_allowed:
  assumes "startsWith path ''/_next'' \<or> startsWith path ''/api''
           \<or> startsWith path ''/public'' \<or> startsWith path ''/favicon.ico''"
  shows "middleware path token role = Inr Allow"
  using assms by (simp add: middleware_def isExcludedPath_iff)

theorem excluded_prefix_allowed_witness:
  "startsWith ''/api/users'' ''/api''
   \<and> middleware ''/api/users'' (Some ''t'') (Some ''ADMIN'') = Inr Allow"
proof -
  have a: "startsWith ''/api/users'' ''/api''"
    by (simp add: startsWith_def)
  then have "startsWith ''/api/users'' ''/_next'' \<or> startsWith ''/api/users'' ''/api''
           \<or> startsWith ''/api/users'' ''/public'' \<or> startsWith ''/api/users'' ''/favicon.ico''"
    by simp
  from excluded_prefix_allowed [OF this] a show ?thesis by simp
qed

text \<open>
  C8. With the token \<open>t\<close> and the role \<open>ADMIN\<close>, the path \<open>/admin/login\<close> is redirected
  to \<open>/admin/dashboard\<close>; and in general, with a token and a role, every path that
  starts with a login page is redirected to \<^verbatim>\<open>ROLE_DASHBOARD_MAP[role] || "/"\<close>.
\<close>

theorem authenticated_login_redirect:
  "middleware ''/admin/login'' (Some ''t'') (Some ''ADMIN'')
     = Inr (Redirect (Path ''/admin/dashboard''))
   \<and> (\<forall>path token role.
        truthy token \<and> truthy role \<and> isLoginRoute path \<longrightarrow>
        middleware path token role
          = Inr (Redirect (orPath (getProperty ROLE_DASHBOARD_MAP role) ''/'')))"
proof -
  have general: "middleware path token role
          = Inr (Redirect (orPath (getProperty ROLE_DASHBOARD_MAP role) ''/''))"
    if "truthy token" "truthy role" "isLoginRoute path" for path token role
    using that by (simp add: middleware_public isLoginRoute_not_excluded isLoginRoute_public)
  have "isLoginRoute ''/admin/login''"
    by (simp add: isLoginRoute_iff startsWith_def)
  then have "middleware ''/admin/login'' (Some ''t'') (Some ''ADMIN'')
     = Inr (Redirect (Path ''/admin/dashboard''))"
    by (simp add: general getProperty_def ROLE_DASHBOARD_MAP_def)
  with general show ?thesis by blast
qed

theorem authenticated_login_redirect_witness:
  "truthy (Some ''t'') \<and> truthy (Some ''VENDOR'') \<and> isLoginRoute ''/supplier/login''
   \<and> middleware ''/supplier/login'' (Some ''t'') (Some ''VENDOR'')
       = Inr (Redirect (Path ''/supplier/dashboard''))"
proof -
  have a: "truthy (Some ''t'') \<and> truthy (Some ''VENDOR'') \<and> isLoginRoute ''/supplier/login''"
    by (simp add: isLoginRoute_iff startsWith_def)
  with authenticated_login_redirect
  have "middleware ''/supplier/login'' (Some ''t'') (Some ''VENDOR'')
          = Inr (Redirect (orPath (getProperty ROLE_DASHBOARD_MAP (Some ''VENDOR'')) ''/''))"
    by blast
  with a show ?thesis by (simp add: getProperty_def ROLE_DASHBOARD_MAP_def)
qed

text \<open>
  C9. The middleware of middleware.js and the one of middleware.ts give the same result
  on every pathname, token and role.
\<close>

theorem middleware_js_eq_ts: "middleware_js pathname token role = middleware pathname token role"
  unfolding middleware_js_def middleware_def Let_def isExcludedPath_def isPublicRoute_def
    isLoginRoute_def determineLoginPath_def hasRoleAccess_def isProtectedRoute_def tables_js
  by simp

text \<open>
  C10. The claim: every redirect goes to one of nine paths (the four dashboards, \<open>/\<close>
  and the four login pages). The code, with a token and the role cookie
  \<open>constructor\<close>, at the path \<open>/login\<close>: \<^verbatim>\<open>ROLE_DASHBOARD_MAP[role]\<close> is the inherited
  member \<^verbatim>\<open>Object.prototype.constructor\<close>, which counts as true, so the fallback \<open>/\<close> is
  not taken and the redirect goes to the text of that member.
\<close>

theorem inherited_role_redirect:
  "getProperty ROLE_DASHBOARD_MAP (Some ''constructor'') = Inherited ''constructor''
   \<and> middleware ''/login'' (Some ''t'') (Some ''constructor'')
       = Inr (Redirect (Member ''constructor''))"
  by (simp add: middleware_def isExcludedPath_iff isPublicRoute_iff isLoginRoute_iff
      getProperty_def ROLE_DASHBOARD_MAP_def OBJECT_PROTOTYPE_KEYS_def startsWith_def)

end
